theory Spec2Isabelle
  imports Complex_Main
begin

section \<open>Attendance management API: data model\<close>

text \<open>
  The program is backend/main.py, a FastAPI application over a PostgreSQL store. All state
  lives in three tables created by \<^verbatim>\<open>ensure_schema\<close>: profiles, attendance and leaves. A
  table is modelled as the list of its rows, an INSERT appends a row, an UPDATE rewrites
  the rows its WHERE clause selects and leaves every other row in place.

  A value of a \<^verbatim>\<open>UUID\<close> column is written in its canonical text (lower-case digits in
  groups of 8-4-4-4-12). An id that arrives in a request body is a Python \<^verbatim>\<open>str\<close>, any text:
  PostgreSQL parses it when the statement runs, raises on text that is not a UUID, and
  compares the parsed value with the column. A \<^verbatim>\<open>TIMESTAMPTZ\<close> is an integer number of
  microseconds (the resolution of PostgreSQL) on the time line of the session's time
  zone, taken with a fixed offset, so that local midnight is a multiple of one day.
  The primary key columns \<^verbatim>\<open>id\<close> are written \<open>aid\<close>, \<open>lid\<close> and \<open>pid\<close>, and
  \<^verbatim>\<open>user.user.id\<close> is \<open>uid\<close> (\<open>id\<close> is the identity function of HOL); the column
  \<^verbatim>\<open>notes\<close> is \<open>notes_text\<close>; columns of the
  leaves table that share a name with one of the attendance table carry the prefix \<open>l_\<close>.
\<close>

type_synonym uuid = string

type_synonym timestamptz = int

text \<open>\<^verbatim>\<open>status TEXT ... CHECK (status IN ('present', 'absent', 'late'))\<close>\<close>

datatype attendance_status = Present | Absent | Late

text \<open>\<^verbatim>\<open>status TEXT ... CHECK (status IN ('pending', 'approved', 'rejected'))\<close>\<close>

datatype leave_status = Pending | Approved | Rejected

record profile =
  pid :: uuid
  email :: string
  full_name :: "string option"
  role :: string

text \<open>Latitude and longitude are \<^verbatim>\<open>DOUBLE PRECISION\<close> values that the program only stores.\<close>

record attendance =
  aid :: uuid
  user_id :: uuid
  check_in_time :: timestamptz
  check_out_time :: "timestamptz option"
  status :: attendance_status
  notes_text :: "string option"
  latitude :: "real option"
  longitude :: "real option"
  created_at :: timestamptz

record leave =
  lid :: uuid
  l_user_id :: uuid
  start_date :: string
  end_date :: string
  reason :: string
  l_status :: leave_status
  admin_note :: "string option"
  approved_by :: "uuid option"
  l_created_at :: timestamptz
  updated_at :: timestamptz

record database =
  profiles :: "profile list"
  attendance :: "attendance list"
  leaves :: "leave list"

text \<open>
  The authenticated user that \<^verbatim>\<open>get_current_user\<close> hands to a handler: the identity
  provider's user id and its metadata dictionary.
\<close>

record user =
  uid :: uuid
  user_metadata :: "(string \<times> string) list"

text \<open>The request bodies (pydantic models).\<close>

record CheckInRequest =
  req_latitude :: "real option"
  req_longitude :: "real option"

record AttendanceCheckoutRequest =
  attendance_id :: string

record LeaveApprovalRequest =
  leave_id :: string
  req_status :: leave_status
  req_admin_note :: "string option"

text \<open>\<^verbatim>\<open>HTTPException(status_code, detail)\<close>; for a 500 the detail is the handler's prefix.\<close>

datatype http_error = HTTPException nat string

section \<open>SQL and Python primitives\<close>

definition interval_minutes :: "int \<Rightarrow> int" where
  "interval_minutes n = n * 60000000"

definition interval_hours :: "int \<Rightarrow> int" where
  "interval_hours n = n * 3600000000"

text \<open>\<^verbatim>\<open>DATE_TRUNC('day', t)\<close>: midnight of the day of \<open>t\<close>.\<close>

definition date_trunc_day :: "timestamptz \<Rightarrow> timestamptz" where
  "date_trunc_day t = t - t mod 86400000000"

text \<open>
  \<^verbatim>\<open>UPDATE tbl SET ... WHERE ... RETURNING ...\<close>: the rows returned (the updated ones, in
  table order) and the table after the statement. The SET clause reads the old row.
\<close>

definition sql_update :: "('r \<Rightarrow> bool) \<Rightarrow> ('r \<Rightarrow> 'r) \<Rightarrow> 'r list \<Rightarrow> 'r list \<times> 'r list" where
  "sql_update wh st tbl = (map st (filter wh tbl), map (\<lambda>r. if wh r then st r else r) tbl)"

text \<open>\<^verbatim>\<open>cursor.fetchone()\<close>: the first row of the result, or None.\<close>

definition fetchone :: "'r list \<Rightarrow> 'r option" where
  "fetchone rows = (case rows of [] \<Rightarrow> None | r # _ \<Rightarrow> Some r)"

text \<open>\<^verbatim>\<open>d.get(k, default)\<close> on a Python dict.\<close>

definition dict_get :: "('k \<times> 'v) list \<Rightarrow> 'k \<Rightarrow> 'v \<Rightarrow> 'v" where
  "dict_get d k dflt = (case map_of d k of None \<Rightarrow> dflt | Some v \<Rightarrow> v)"

section \<open>The input syntax of UUIDs\<close>

text \<open>
  The handlers pass a request's id to PostgreSQL as a string parameter, and the server's
  input function of the type \<^verbatim>\<open>uuid\<close> turns it into a value or raises "invalid input syntax
  for type uuid". That function is not part of the repository: the handlers below take it
  as the parameter \<open>uuid_in\<close>, None where it raises. \<open>pg_uuid_in\<close> is PostgreSQL's function
  as its documentation describes it, for the concrete instances: sixteen bytes of two
  hexadecimal digits each, in either case, an optional hyphen after any group of four
  digits, optionally the whole in braces, and nothing before or after.
\<close>

definition isxdigit :: "char \<Rightarrow> bool" where
  "isxdigit c = (c \<in> set ''0123456789abcdefABCDEF'')"

definition tolower_digit :: "char \<Rightarrow> char" where
  "tolower_digit c =
     (if c = CHR ''A'' then CHR ''a'' else if c = CHR ''B'' then CHR ''b''
      else if c = CHR ''C'' then CHR ''c'' else if c = CHR ''D'' then CHR ''d''
      else if c = CHR ''E'' then CHR ''e'' else if c = CHR ''F'' then CHR ''f'' else c)"

text \<open>
  \<open>uuid_bytes n src\<close> reads the last \<open>n\<close> of the sixteen bytes from \<open>src\<close>: the digits read,
  in lower case, and the rest of the text. Byte number \<open>i = 15 - n\<close> (counted from 0) may
  be followed by a hyphen when \<open>i\<close> is odd and it is not the last byte.
\<close>

fun uuid_bytes :: "nat \<Rightarrow> string \<Rightarrow> (string \<times> string) option" where
  "uuid_bytes 0 src = Some ([], src)"
| "uuid_bytes (Suc n) [] = None"
| "uuid_bytes (Suc n) [a] = None"
| "uuid_bytes (Suc n) (a # b # rest) =
     (if isxdigit a \<and> isxdigit b then
        (case uuid_bytes n
                (case rest of
                   [] \<Rightarrow> rest
                 | c # r \<Rightarrow> if c = CHR ''-'' \<and> odd (15 - n) \<and> 15 - n < 15 then r else rest) of
           None \<Rightarrow> None
         | Some (digits, src') \<Rightarrow> Some (tolower_digit a # tolower_digit b # digits, src'))
      else None)"

text \<open>The canonical text of the thirty-two digits.\<close>

definition uuid_out :: "string \<Rightarrow> uuid" where
  "uuid_out digits =
     take 8 digits @ ''-'' @ take 4 (drop 8 digits) @ ''-'' @ take 4 (drop 12 digits) @ ''-'' @
     take 4 (drop 16 digits) @ ''-'' @ drop 20 digits"

definition pg_uuid_in :: "string \<Rightarrow> uuid option" where
  "pg_uuid_in source =
     (case (case source of
              [] \<Rightarrow> (False, source)
            | c # r \<Rightarrow> if c = CHR ''{'' then (True, r) else (False, source)) of
        (braces, src) \<Rightarrow>
          (case uuid_bytes 16 src of
             None \<Rightarrow> None
           | Some (digits, rest) \<Rightarrow>
               if braces then (if rest = ''}'' then Some (uuid_out digits) else None)
               else if rest = [] then Some (uuid_out digits) else None))"

section \<open>Network admission filter\<close>

text \<open>
  \<^verbatim>\<open>is_office_network\<close> reads the global \<^verbatim>\<open>ALLOWED_OFFICE_IPS\<close> and calls Python's
  \<^verbatim>\<open>ipaddress\<close> module, which is not part of the repository. The allowlist and the
  library are parameters: \<open>ip_address s\<close> and \<open>ip_network s\<close> are None where the
  library raises ValueError, and \<open>contains n a\<close> is \<^verbatim>\<open>a in n\<close>.

  The loop over the allowlist: a ValueError inside the inner \<^verbatim>\<open>try\<close> continues with the
  next entry, a match returns True at once.
\<close>

fun office_loop ::
  "(string \<Rightarrow> 'ip option) \<Rightarrow> (string \<Rightarrow> 'net option) \<Rightarrow> ('net \<Rightarrow> 'ip \<Rightarrow> bool) \<Rightarrow>
   'ip \<Rightarrow> string list \<Rightarrow> bool" where
  "office_loop ip_address ip_network contains client_ip [] = False"
| "office_loop ip_address ip_network contains client_ip (allowed # rest) =
     (if CHR ''/'' \<in> set allowed then
        (case ip_network allowed of
           None \<Rightarrow> office_loop ip_address ip_network contains client_ip rest
         | Some net \<Rightarrow>
             if contains net client_ip then True
             else office_loop ip_address ip_network contains client_ip rest)
      else
        (case ip_address allowed of
           None \<Rightarrow> office_loop ip_address ip_network contains client_ip rest
         | Some a \<Rightarrow>
             if client_ip = a then True
             else office_loop ip_address ip_network contains client_ip rest))"

definition is_office_network ::
  "(string \<Rightarrow> 'ip option) \<Rightarrow> (string \<Rightarrow> 'net option) \<Rightarrow> ('net \<Rightarrow> 'ip \<Rightarrow> bool) \<Rightarrow>
   string list \<Rightarrow> string \<Rightarrow> bool" where
  "is_office_network ip_address ip_network contains ALLOWED_OFFICE_IPS ip =
     (if ALLOWED_OFFICE_IPS = [] then True
      else
        (case ip_address ip of
           None \<Rightarrow> False
         | Some client_ip \<Rightarrow>
             office_loop ip_address ip_network contains client_ip ALLOWED_OFFICE_IPS))"

text \<open>
  What it means for one allowlist entry to admit a parsed address, in the words of the
  specification: a CIDR entry by containment, a bare address by equality, a malformed
  entry never.
\<close>

definition entry_matches ::
  "(string \<Rightarrow> 'ip option) \<Rightarrow> (string \<Rightarrow> 'net option) \<Rightarrow> ('net \<Rightarrow> 'ip \<Rightarrow> bool) \<Rightarrow>
   'ip \<Rightarrow> string \<Rightarrow> bool" where
  "entry_matches ip_address ip_network contains client_ip allowed =
     (if CHR ''/'' \<in> set allowed then
        (case ip_network allowed of None \<Rightarrow> False | Some net \<Rightarrow> contains net client_ip)
      else
        (case ip_address allowed of None \<Rightarrow> False | Some a \<Rightarrow> client_ip = a))"

definition malformed ::
  "(string \<Rightarrow> 'ip option) \<Rightarrow> (string \<Rightarrow> 'net option) \<Rightarrow> string \<Rightarrow> bool" where
  "malformed ip_address ip_network allowed =
     (if CHR ''/'' \<in> set allowed then ip_network allowed = None else ip_address allowed = None)"

section \<open>Authorization gate\<close>

text \<open>
  \<^verbatim>\<open>require_admin\<close>. The flag \<open>conn\<close> says whether the profile lookup runs through; when it
  is False the \<^verbatim>\<open>try\<close> block raised and the \<^verbatim>\<open>except\<close> branch takes the role from the
  metadata. The row of \<^verbatim>\<open>SELECT role FROM profiles\<close> always has the key \<^verbatim>\<open>role\<close>.
\<close>

definition require_admin :: "bool \<Rightarrow> database \<Rightarrow> user \<Rightarrow> http_error + user" where
  "require_admin conn db usr =
     (let user_role =
        (if conn then
           (case fetchone (filter (\<lambda>p. pid p = uid usr) (profiles db)) of
              Some profile \<Rightarrow> role profile
            | None \<Rightarrow> dict_get (user_metadata usr) ''role'' ''member'')
         else dict_get (user_metadata usr) ''role'' ''member'')
      in if user_role \<noteq> ''admin''
         then Inl (HTTPException 403
           ''You don't have permission to access this resource. Admin access required.'')
         else Inr usr)"

text \<open>
  The role the specification describes: the profile row's role when the store answers and
  a row exists, else the metadata role, else member.
\<close>

definition resolved_role :: "bool \<Rightarrow> database \<Rightarrow> user \<Rightarrow> string" where
  "resolved_role conn db usr =
     (case (if conn then find (\<lambda>p. pid p = uid usr) (profiles db) else None) of
        Some p \<Rightarrow> role p
      | None \<Rightarrow>
          (case map_of (user_metadata usr) ''role'' of Some r \<Rightarrow> r | None \<Rightarrow> ''member''))"

section \<open>Session lifecycle engine\<close>

text \<open>
  \<^verbatim>\<open>auto_expire_sessions\<close> (defined twice in the source, with the same body). The flag
  \<open>conn\<close> says whether its transaction runs through; when it raises, the function logs
  and returns 0 and nothing is committed. \<open>now\<close> is \<^verbatim>\<open>NOW()\<close> of that transaction.
\<close>

definition expire_where :: "timestamptz \<Rightarrow> attendance \<Rightarrow> bool" where
  "expire_where now r =
     (check_out_time r = None \<and> check_in_time r < now - interval_minutes 120 \<and>
      status r \<noteq> Absent)"

definition expire_set :: "attendance \<Rightarrow> attendance" where
  "expire_set r =
     r\<lparr>status := Absent, check_out_time := Some (check_in_time r + interval_minutes 120)\<rparr>"

definition auto_expire_sessions :: "bool \<Rightarrow> timestamptz \<Rightarrow> database \<Rightarrow> nat \<times> database" where
  "auto_expire_sessions conn now db =
     (if conn then
        (case sql_update (expire_where now) expire_set (attendance db) of
           (updated, tbl) \<Rightarrow> (length updated, db\<lparr>attendance := tbl\<rparr>))
      else (0, db))"

text \<open>
  \<^verbatim>\<open>check_in\<close>, the handler's body: \<open>usr\<close> and the office address are already resolved by
  the dependencies. The sweep runs first, in a transaction of its own (\<open>sweep_conn\<close>,
  \<open>sweep_now\<close>). \<open>conn\<close> says whether the handler's own transaction runs through and
  \<open>now\<close> is its \<^verbatim>\<open>NOW()\<close>; \<open>new_id\<close> is the value of \<^verbatim>\<open>gen_random_uuid()\<close>. The INSERT
  raises when the primary key exists or the user has no profile row (the foreign key of
  \<^verbatim>\<open>user_id\<close>); any exception other than the HTTPException becomes a 500. The SELECT
  takes the latest row of the user since midnight (\<^verbatim>\<open>ORDER BY ... LIMIT 1\<close>); the handler
  only tests whether there is one.
\<close>

definition is_late :: "timestamptz \<Rightarrow> bool" where
  "is_late now = (now > date_trunc_day now + interval_hours 9)"

definition check_in ::
  "bool \<Rightarrow> timestamptz \<Rightarrow> bool \<Rightarrow> timestamptz \<Rightarrow> uuid \<Rightarrow> user \<Rightarrow> CheckInRequest \<Rightarrow> database \<Rightarrow>
   (http_error + attendance) \<times> database" where
  "check_in sweep_conn sweep_now conn now new_id usr location db0 =
     (let db = snd (auto_expire_sessions sweep_conn sweep_now db0) in
      if \<not> conn then (Inl (HTTPException 500 ''Failed to check in''), db)
      else
        (case fetchone (filter (\<lambda>r. user_id r = uid usr \<and> check_in_time r \<ge> date_trunc_day now)
                          (attendance db)) of
           Some existing \<Rightarrow> (Inl (HTTPException 400 ''Already checked in today''), db)
         | None \<Rightarrow>
             (let status_value = (if is_late now then Late else Present);
                  record = \<lparr>aid = new_id, user_id = uid usr, check_in_time = now,
                            check_out_time = None, status = status_value, notes_text = None,
                            latitude = req_latitude location,
                            longitude = req_longitude location, created_at = now\<rparr>
              in if new_id \<in> set (map aid (attendance db)) \<or>
                    uid usr \<notin> set (map pid (profiles db))
                 then (Inl (HTTPException 500 ''Failed to check in''), db)
                 else (Inr record, db\<lparr>attendance := attendance db @ [record]\<rparr>))))"

text \<open>
  \<^verbatim>\<open>check_out\<close>: one conditional UPDATE; without a returned row the handler raises and
  nothing is committed. \<^verbatim>\<open>attendance_id\<close> is any text: when it is not a UUID the statement
  raises, and the handler answers 500 as for any other exception. The user's id comes
  from the identity provider and is a UUID value.
\<close>

definition checkout_where :: "uuid \<Rightarrow> user \<Rightarrow> attendance \<Rightarrow> bool" where
  "checkout_where rid usr r = (aid r = rid \<and> user_id r = uid usr \<and> check_out_time r = None)"

definition checkout_set :: "timestamptz \<Rightarrow> attendance \<Rightarrow> attendance" where
  "checkout_set now r = r\<lparr>check_out_time := Some now\<rparr>"

definition check_out ::
  "(string \<Rightarrow> uuid option) \<Rightarrow> bool \<Rightarrow> timestamptz \<Rightarrow> AttendanceCheckoutRequest \<Rightarrow> user \<Rightarrow>
   database \<Rightarrow> (http_error + attendance) \<times> database" where
  "check_out uuid_in conn now payload usr db =
     (if \<not> conn then (Inl (HTTPException 500 ''Failed to check out''), db)
      else
        (case uuid_in (attendance_id payload) of
           None \<Rightarrow> (Inl (HTTPException 500 ''Failed to check out''), db)
         | Some rid \<Rightarrow>
             (case sql_update (checkout_where rid usr) (checkout_set now) (attendance db) of
                (updated, tbl) \<Rightarrow>
                  (case fetchone updated of
                     None \<Rightarrow>
                       (Inl (HTTPException 400 ''No open check-in found for this record''), db)
                   | Some record \<Rightarrow> (Inr record, db\<lparr>attendance := tbl\<rparr>)))))"

text \<open>
  The operations that write the attendance table, as one step of the store, and any
  sequence of them.
\<close>

inductive step :: "database \<Rightarrow> database \<Rightarrow> bool" where
  step_check_in:
    "db' = snd (check_in sweep_conn sweep_now conn now new_id usr location db) \<Longrightarrow> step db db'"
| step_check_out:
    "db' = snd (check_out uuid_in conn now payload usr db) \<Longrightarrow> step db db'"
| step_auto_expire:
    "db' = snd (auto_expire_sessions conn now db) \<Longrightarrow> step db db'"

section \<open>Leave approval\<close>

text \<open>
  \<^verbatim>\<open>approve_leave\<close>. The payload's status is \<^verbatim>\<open>Literal["approved", "rejected"]\<close>: the
  framework answers 422 to any other value before the handler runs. \<^verbatim>\<open>leave_id\<close> is any
  text: when it is not a UUID the statement raises and the handler answers 500. The UPDATE
  selects by id alone. It raises when a row is selected and the approver has no profile
  row (the foreign key of \<^verbatim>\<open>approved_by\<close>).
\<close>

definition approve_leave ::
  "(string \<Rightarrow> uuid option) \<Rightarrow> bool \<Rightarrow> timestamptz \<Rightarrow> LeaveApprovalRequest \<Rightarrow> user \<Rightarrow>
   database \<Rightarrow> (http_error + leave) \<times> database" where
  "approve_leave uuid_in conn now payload usr db =
     (if req_status payload = Pending
      then (Inl (HTTPException 422 ''Input should be approved or rejected''), db)
      else if \<not> conn then (Inl (HTTPException 500 ''Failed to update leave''), db)
      else
        (case uuid_in (leave_id payload) of
           None \<Rightarrow> (Inl (HTTPException 500 ''Failed to update leave''), db)
         | Some lv \<Rightarrow>
             (case sql_update (\<lambda>l. lid l = lv)
                     (\<lambda>l. l\<lparr>l_status := req_status payload,
                            admin_note := req_admin_note payload,
                            approved_by := Some (uid usr), updated_at := now\<rparr>) (leaves db) of
                (updated, tbl) \<Rightarrow>
                  (case fetchone updated of
                     None \<Rightarrow> (Inl (HTTPException 404 ''Leave request not found''), db)
                   | Some leave \<Rightarrow>
                       if uid usr \<notin> set (map pid (profiles db))
                       then (Inl (HTTPException 500 ''Failed to update leave''), db)
                       else (Inr leave, db\<lparr>leaves := tbl\<rparr>)))))"

text \<open>
  The endpoint: the dependency \<^verbatim>\<open>require_admin\<close> (with its own connection) runs before the
  handler.
\<close>

definition approve_leave_endpoint ::
  "(string \<Rightarrow> uuid option) \<Rightarrow> bool \<Rightarrow> bool \<Rightarrow> timestamptz \<Rightarrow> LeaveApprovalRequest \<Rightarrow> user \<Rightarrow>
   database \<Rightarrow> (http_error + leave) \<times> database" where
  "approve_leave_endpoint uuid_in admin_conn conn now payload usr db =
     (case require_admin admin_conn db usr of
        Inl e \<Rightarrow> (Inl e, db)
      | Inr u \<Rightarrow> approve_leave uuid_in conn now payload u db)"

section \<open>Sample data\<close>

text \<open>
  An open attendance row and a store with one profile, for the concrete instances below.
  Where no id is parsed (the sweep, check-in, the user ids) short names stand for the ids.
\<close>

definition open_row :: "uuid \<Rightarrow> uuid \<Rightarrow> timestamptz \<Rightarrow> attendance_status \<Rightarrow> attendance" where
  "open_row i u t s =
     \<lparr>aid = i, user_id = u, check_in_time = t, check_out_time = None, status = s,
      notes_text = None, latitude = None, longitude = None, created_at = t\<rparr>"

definition store :: "attendance list \<Rightarrow> database" where
  "store rows = \<lparr>profiles = [\<lparr>pid = ''u1'', email = ''a@x.org'', full_name = None, role = ''member''\<rparr>],
                  attendance = rows, leaves = []\<rparr>"

definition member_of :: "uuid \<Rightarrow> user" where
  "member_of u = \<lparr>uid = u, user_metadata = [(''role'', ''member'')]\<rparr>"

definition no_location :: CheckInRequest where
  "no_location = \<lparr>req_latitude = None, req_longitude = None\<rparr>"

definition sample_ip_address :: "string \<Rightarrow> nat option" where
  "sample_ip_address s =
     (if s = ''192.168.1.50'' then Some 3232235826
      else if s = ''10.0.0.5'' then Some 167772165
      else if s = ''127.0.0.1'' then Some 2130706433
      else None)"

definition sample_ip_network :: "string \<Rightarrow> (nat \<times> nat) option" where
  "sample_ip_network s = (if s = ''192.168.1.0/24'' then Some (3232235776, 24) else None)"

definition sample_contains :: "nat \<times> nat \<Rightarrow> nat \<Rightarrow> bool" where
  "sample_contains net a = (a div 2 ^ (32 - snd net) = fst net div 2 ^ (32 - snd net))"

text \<open>Ids of attendance rows and of a leave, in canonical text.\<close>

definition rec1 :: uuid where
  "rec1 = ''a0eebc99-9c0b-4ef8-bb6d-6bb9bd380a11''"

definition rec2 :: uuid where
  "rec2 = ''3f2504e0-4f89-41d3-9a0c-0305e82c3301''"

definition leave1 :: uuid where
  "leave1 = ''6fa459ea-ee8a-3ca4-894e-db77e160355e''"

definition leave2 :: uuid where
  "leave2 = ''7d444840-9dc0-11d1-b245-5ffdce74fad2''"

definition admin_of :: "uuid \<Rightarrow> user" where
  "admin_of u = \<lparr>uid = u, user_metadata = [(''role'', ''admin'')]\<rparr>"

definition profile_row :: "uuid \<Rightarrow> string \<Rightarrow> profile" where
  "profile_row u r = \<lparr>pid = u, email = u @ ''@example.org'', full_name = None, role = r\<rparr>"

definition leave_row :: "uuid \<Rightarrow> uuid \<Rightarrow> leave_status \<Rightarrow> uuid option \<Rightarrow> leave" where
  "leave_row i u s a =
     \<lparr>lid = i, l_user_id = u, start_date = ''2024-10-07'', end_date = ''2024-10-08'',
      reason = ''family'', l_status = s, admin_note = None, approved_by = a,
      l_created_at = 1728000000000000, updated_at = 1728000000000000\<rparr>"

section \<open>Unfolding rules for concrete instances\<close>

lemmas sample_defs = store_def open_row_def member_of_def no_location_def

lemma pg_uuid_in_rec1: "pg_uuid_in ''a0eebc99-9c0b-4ef8-bb6d-6bb9bd380a11'' = Some rec1"
  unfolding rec1_def by code_simp

lemma pg_uuid_in_rec1_upper: "pg_uuid_in ''A0EEBC99-9C0B-4EF8-BB6D-6BB9BD380A11'' = Some rec1"
  unfolding rec1_def by code_simp

lemma pg_uuid_in_rec1_braces: "pg_uuid_in ''{a0eebc999c0b4ef8bb6d6bb9bd380a11}'' = Some rec1"
  unfolding rec1_def by code_simp

lemma pg_uuid_in_leave1: "pg_uuid_in ''6fa459ea-ee8a-3ca4-894e-db77e160355e'' = Some leave1"
  unfolding leave1_def by code_simp

lemma pg_uuid_in_not_a_uuid: "pg_uuid_in ''not-a-uuid'' = None"
  by code_simp

lemma pg_uuid_in_short: "pg_uuid_in ''a1'' = None"
  by code_simp

lemma pg_uuid_in_trailing: "pg_uuid_in ''a0eebc99-9c0b-4ef8-bb6d-6bb9bd380a11 '' = None"
  by code_simp

lemma rec1_neq_rec2: "rec1 \<noteq> rec2" "rec2 \<noteq> rec1"
  by (simp_all add: rec1_def rec2_def)

lemma leave1_neq_leave2: "leave1 \<noteq> leave2" "leave2 \<noteq> leave1"
  by (simp_all add: leave1_def leave2_def)

lemmas pg_uuid_in_samples = pg_uuid_in_rec1 pg_uuid_in_rec1_upper pg_uuid_in_rec1_braces
  pg_uuid_in_leave1 pg_uuid_in_not_a_uuid pg_uuid_in_short pg_uuid_in_trailing
  rec1_neq_rec2 leave1_neq_leave2

lemmas eval_defs = check_in_def check_out_def auto_expire_sessions_def sql_update_def
  fetchone_def expire_where_def expire_set_def checkout_where_def checkout_set_def
  is_late_def date_trunc_day_def interval_hours_def interval_minutes_def Let_def

lemmas leave_eval_defs = approve_leave_endpoint_def approve_leave_def require_admin_def
  sql_update_def fetchone_def dict_get_def Let_def

lemmas leave_sample_defs = leave_row_def profile_row_def admin_of_def

section \<open>The bulk update and the sweep\<close>

lemma sql_update_length: "length (snd (sql_update wh st tbl)) = length tbl"
  by (simp add: sql_update_def)

lemma sql_update_nth:
  "i < length tbl \<Longrightarrow>
   snd (sql_update wh st tbl) ! i = (if wh (tbl ! i) then st (tbl ! i) else tbl ! i)"
  by (simp add: sql_update_def)

lemma auto_expire_sessions_up:
  "auto_expire_sessions True now db =
     (length (filter (expire_where now) (attendance db)),
      db\<lparr>attendance := snd (sql_update (expire_where now) expire_set (attendance db))\<rparr>)"
  by (simp add: auto_expire_sessions_def sql_update_def)

lemma auto_expire_sessions_down: "auto_expire_sessions False now db = (0, db)"
  by (simp add: auto_expire_sessions_def)

lemma expire_where_iff:
  "expire_where now r \<longleftrightarrow>
     check_out_time r = None \<and> status r \<noteq> Absent \<and> now - check_in_time r > 7200000000"
  by (auto simp: expire_where_def interval_minutes_def)

lemma expire_set_eq:
  "expire_set r = r\<lparr>check_out_time := Some (check_in_time r + 7200000000), status := Absent\<rparr>"
  by (simp add: expire_set_def interval_minutes_def)

lemma expire_set_not_where: "\<not> expire_where now' (expire_set r)"
  by (simp add: expire_where_def expire_set_def)

lemma expire_where_mono: "now \<le> now' \<Longrightarrow> expire_where now r \<Longrightarrow> expire_where now' r"
  by (auto simp: expire_where_def)

lemma sweep_map:
  "attendance (snd (auto_expire_sessions conn now db)) =
     (if conn then map (\<lambda>r. if expire_where now r then expire_set r else r) (attendance db)
      else attendance db)"
  by (simp add: auto_expire_sessions_def sql_update_def)

lemma sweep_snd:
  "snd (auto_expire_sessions conn now db) =
     (if conn then db\<lparr>attendance := map (\<lambda>r. if expire_where now r then expire_set r else r) (attendance db)\<rparr>
      else db)"
  by (simp add: auto_expire_sessions_def sql_update_def)

lemma sweep_fst:
  "fst (auto_expire_sessions conn now db) =
     (if conn then length (filter (expire_where now) (attendance db)) else 0)"
  by (simp add: auto_expire_sessions_def sql_update_def)

lemma sweep_twice_rows:
  "now \<le> now' \<Longrightarrow>
   map (\<lambda>r. if expire_where now' r then expire_set r else r)
     (map (\<lambda>r. if expire_where now r then expire_set r else r) rows) =
   map (\<lambda>r. if expire_where now' r then expire_set r else r) rows"
  by (induction rows) (auto simp: expire_set_not_where expire_where_mono)

lemma filter_swept_empty:
  "filter (expire_where now) (map (\<lambda>r. if expire_where now r then expire_set r else r) rows) = []"
  by (induction rows) (auto simp: expire_set_not_where)

lemma closed_not_where: "status r = Absent \<or> check_out_time r \<noteq> None \<Longrightarrow> \<not> expire_where now r"
  by (auto simp: expire_where_def)

lemma sweep_nth:
  "i < length (attendance db) \<Longrightarrow>
   attendance (snd (auto_expire_sessions conn now db)) ! i =
     (if conn \<and> expire_where now (attendance db ! i) then expire_set (attendance db ! i)
      else attendance db ! i)"
  by (simp add: sweep_map)

lemma sweep_length:
  "length (attendance (snd (auto_expire_sessions conn now db))) = length (attendance db)"
  by (simp add: sweep_map)

section \<open>Properties of the auto-expiry sweep\<close>

text \<open>
  C2. When its transaction runs through, the sweep rewrites exactly the rows with a null
  check-out, a status other than absent and a check-in more than 120 minutes (7200000000
  microseconds) before \<open>now\<close>: each gets check-out = check-in + 120 minutes and status
  absent. Every other row, the other tables and the number of rows are unchanged, and the
  returned count is the number of rows rewritten.
\<close>

theorem auto_expire_sessions_exact:
  assumes "auto_expire_sessions True now db = (n, db')"
  shows "profiles db' = profiles db \<and> leaves db' = leaves db \<and>
         length (attendance db') = length (attendance db) \<and>
         n = length (filter (\<lambda>r. check_out_time r = None \<and> status r \<noteq> Absent \<and>
                                  now - check_in_time r > 7200000000) (attendance db)) \<and>
         (\<forall>i < length (attendance db).
            attendance db' ! i =
              (let r = attendance db ! i in
               if check_out_time r = None \<and> status r \<noteq> Absent \<and>
                  now - check_in_time r > 7200000000
               then r\<lparr>check_out_time := Some (check_in_time r + 7200000000), status := Absent\<rparr>
               else r))"
proof -
  from assms have n: "n = length (filter (expire_where now) (attendance db))"
    and db': "db' = db\<lparr>attendance := snd (sql_update (expire_where now) expire_set (attendance db))\<rparr>"
    by (simp_all add: auto_expire_sessions_up)
  have "expire_where now = (\<lambda>r. check_out_time r = None \<and> status r \<noteq> Absent \<and>
                                  now - check_in_time r > 7200000000)"
    by (rule ext) (rule expire_where_iff)
  with n have "n = length (filter (\<lambda>r. check_out_time r = None \<and> status r \<noteq> Absent \<and>
                                  now - check_in_time r > 7200000000) (attendance db))"
    by simp
  moreover have "\<forall>i < length (attendance db).
            attendance db' ! i =
              (let r = attendance db ! i in
               if check_out_time r = None \<and> status r \<noteq> Absent \<and>
                  now - check_in_time r > 7200000000
               then r\<lparr>check_out_time := Some (check_in_time r + 7200000000), status := Absent\<rparr>
               else r)"
    by (simp add: db' sql_update_nth expire_where_iff expire_set_eq Let_def)
  ultimately show ?thesis
    by (simp add: db' sql_update_length)
qed

text \<open>
  A row checked in at T = 0 and evaluated at T + 121 minutes is closed at T + 120 minutes
  as absent; a row checked in 119 minutes before the evaluation stays open.
\<close>

theorem auto_expire_sessions_exact_witness:
  "auto_expire_sessions True 7260000000 (store [open_row ''a1'' ''u1'' 0 Present, open_row ''a2'' ''u2'' 120000000 Late])
     = (1, store [(open_row ''a1'' ''u1'' 0 Present)\<lparr>check_out_time := Some 7200000000, status := Absent\<rparr>,
                  open_row ''a2'' ''u2'' 120000000 Late])"
proof -
  have h: "auto_expire_sessions True 7260000000 (store [open_row ''a1'' ''u1'' 0 Present, open_row ''a2'' ''u2'' 120000000 Late])
     = (1, store [(open_row ''a1'' ''u1'' 0 Present)\<lparr>check_out_time := Some 7200000000, status := Absent\<rparr>,
                  open_row ''a2'' ''u2'' 120000000 Late])"
    by (simp add: auto_expire_sessions_def sql_update_def expire_where_def expire_set_def
        interval_minutes_def store_def open_row_def)
  from auto_expire_sessions_exact [OF h] show ?thesis using h by simp
qed

text \<open>
  C5. Running the sweep a second time changes nothing and updates no row; a row that is
  absent or has a check-out is left alone by any later sweep; and a sweep at \<open>now\<close>
  followed by one at a later time gives the state of the later sweep alone.
\<close>

theorem auto_expire_sessions_idempotent:
  "(let once = snd (auto_expire_sessions conn now db) in
      snd (auto_expire_sessions conn now once) = once \<and>
      fst (auto_expire_sessions conn now once) = 0 \<and>
      (\<forall>conn' now' i. i < length (attendance once) \<longrightarrow>
         (status (attendance once ! i) = Absent \<or> check_out_time (attendance once ! i) \<noteq> None) \<longrightarrow>
         attendance (snd (auto_expire_sessions conn' now' once)) ! i = attendance once ! i)) \<and>
   (\<forall>later \<ge> now.
      snd (auto_expire_sessions True later (snd (auto_expire_sessions True now db))) =
      snd (auto_expire_sessions True later db))"
proof -
  define once where "once = snd (auto_expire_sessions conn now db)"
  have 1: "snd (auto_expire_sessions conn now once) = once"
    unfolding once_def by (simp add: sweep_snd sweep_twice_rows del: map_map)
  have 2: "fst (auto_expire_sessions conn now once) = 0"
    unfolding once_def by (simp add: sweep_fst sweep_snd filter_swept_empty del: map_map)
  have 3: "attendance (snd (auto_expire_sessions conn' now' once)) ! i = attendance once ! i"
    if "i < length (attendance once)"
      and "status (attendance once ! i) = Absent \<or> check_out_time (attendance once ! i) \<noteq> None"
    for conn' now' i
    using that by (simp add: sweep_nth closed_not_where)
  have 4: "snd (auto_expire_sessions True later (snd (auto_expire_sessions True now db))) =
           snd (auto_expire_sessions True later db)" if "now \<le> later" for later
    using that by (simp add: sweep_snd sweep_twice_rows del: map_map)
  from 1 2 3 4 show ?thesis
    unfolding Let_def once_def [symmetric] by blast
qed

text \<open>The sweep of the two-row store above, run twice at 121 minutes.\<close>

theorem auto_expire_sessions_idempotent_witness:
  "snd (auto_expire_sessions True 7260000000
          (snd (auto_expire_sessions True 7260000000
             (store [open_row ''a1'' ''u1'' 0 Present, open_row ''a2'' ''u2'' 120000000 Late])))) =
   store [(open_row ''a1'' ''u1'' 0 Present)\<lparr>check_out_time := Some 7200000000, status := Absent\<rparr>,
          open_row ''a2'' ''u2'' 120000000 Late]"
proof -
  have h: "snd (auto_expire_sessions True 7260000000
             (store [open_row ''a1'' ''u1'' 0 Present, open_row ''a2'' ''u2'' 120000000 Late])) =
           store [(open_row ''a1'' ''u1'' 0 Present)\<lparr>check_out_time := Some 7200000000, status := Absent\<rparr>,
                  open_row ''a2'' ''u2'' 120000000 Late]"
    by (simp add: auto_expire_sessions_def sql_update_def expire_where_def expire_set_def
        interval_minutes_def store_def open_row_def)
  from auto_expire_sessions_idempotent
    [of True 7260000000 "store [open_row ''a1'' ''u1'' 0 Present, open_row ''a2'' ''u2'' 120000000 Late]"]
  show ?thesis unfolding Let_def h by blast
qed

section \<open>Checkout\<close>

lemma check_out_parsed:
  "uuid_in (attendance_id payload) = Some rid \<Longrightarrow>
   check_out uuid_in True now payload usr db =
     (case filter (checkout_where rid usr) (attendance db) of
        [] \<Rightarrow> (Inl (HTTPException 400 ''No open check-in found for this record''), db)
      | r # _ \<Rightarrow>
          (Inr (checkout_set now r),
           db\<lparr>attendance := map (\<lambda>r. if checkout_where rid usr r then checkout_set now r else r)
                               (attendance db)\<rparr>))"
  by (simp add: check_out_def sql_update_def fetchone_def split: list.splits)

lemma check_out_unparsed:
  "uuid_in (attendance_id payload) = None \<Longrightarrow>
   check_out uuid_in conn now payload usr db =
     (Inl (HTTPException 500 ''Failed to check out''), db)"
  by (simp add: check_out_def)

lemma check_out_down:
  "check_out uuid_in False now payload usr db =
     (Inl (HTTPException 500 ''Failed to check out''), db)"
  by (simp add: check_out_def)

lemma check_out_Inr:
  assumes "check_out uuid_in conn now payload usr db = (Inr row, db')"
  obtains rid r rest where "conn" and "uuid_in (attendance_id payload) = Some rid"
    and "db' = db\<lparr>attendance :=
           map (\<lambda>r. if checkout_where rid usr r then checkout_set now r else r) (attendance db)\<rparr>"
    and "filter (checkout_where rid usr) (attendance db) = r # rest"
    and "row = checkout_set now r"
proof -
  have c: "conn" using assms by (cases conn) (simp_all add: check_out_down)
  obtain rid where p: "uuid_in (attendance_id payload) = Some rid"
    using assms by (cases "uuid_in (attendance_id payload)") (simp_all add: check_out_unparsed)
  from assms c have e: "check_out uuid_in True now payload usr db = (Inr row, db')" by simp
  show thesis
  proof (cases "filter (checkout_where rid usr) (attendance db)")
    case Nil
    with e show ?thesis by (simp add: check_out_parsed p)
  next
    case (Cons r rest)
    with e have "row = checkout_set now r"
      and "db' = db\<lparr>attendance :=
           map (\<lambda>r. if checkout_where rid usr r then checkout_set now r else r) (attendance db)\<rparr>"
      by (simp_all add: check_out_parsed p)
    with c p Cons show ?thesis by (rule_tac that)
  qed
qed

lemma filter_hd_mem:
  "filter P xs = r # rest \<Longrightarrow> r \<in> set xs \<and> P r"
proof -
  assume "filter P xs = r # rest"
  then have "r \<in> set (filter P xs)" by simp
  then show ?thesis by simp
qed

text \<open>
  C4, as amended. With its transaction running through, checkout succeeds if and only if
  the given id is the text of a UUID and the table has a row with that UUID as id, owned
  by the calling user, with a null check-out. On success the returned row and every such
  row get check-out = \<open>now\<close> and every other row is as before. When the id is a UUID and
  there is no such row, the handler answers 400 "No open check-in found for this record";
  when the id is not the text of a UUID, the statement raises and the handler answers 500.
  A refused checkout leaves the store unchanged.
\<close>

theorem check_out_iff_open_record:
  "((\<exists>row db'. check_out uuid_in True now payload usr db = (Inr row, db')) \<longleftrightarrow>
      (\<exists>r \<in> set (attendance db).
          uuid_in (attendance_id payload) = Some (aid r) \<and> user_id r = uid usr \<and>
          check_out_time r = None)) \<and>
   (\<forall>row db'. check_out uuid_in True now payload usr db = (Inr row, db') \<longrightarrow>
      uuid_in (attendance_id payload) = Some (aid row) \<and> user_id row = uid usr \<and>
      check_out_time row = Some now \<and> row \<in> set (attendance db') \<and>
      length (attendance db') = length (attendance db) \<and>
      (\<forall>i < length (attendance db).
         attendance db' ! i =
           (let r = attendance db ! i in
            if uuid_in (attendance_id payload) = Some (aid r) \<and> user_id r = uid usr \<and>
               check_out_time r = None
            then r\<lparr>check_out_time := Some now\<rparr> else r))) \<and>
   (uuid_in (attendance_id payload) \<noteq> None \<and>
    \<not> (\<exists>r \<in> set (attendance db).
          uuid_in (attendance_id payload) = Some (aid r) \<and> user_id r = uid usr \<and>
          check_out_time r = None) \<longrightarrow>
      check_out uuid_in True now payload usr db =
        (Inl (HTTPException 400 ''No open check-in found for this record''), db)) \<and>
   (uuid_in (attendance_id payload) = None \<longrightarrow>
      check_out uuid_in True now payload usr db =
        (Inl (HTTPException 500 ''Failed to check out''), db)) \<and>
   (\<forall>e db'. check_out uuid_in conn now payload usr db = (Inl e, db') \<longrightarrow> db' = db)"
proof -
  have w: "checkout_where rid usr r \<longleftrightarrow>
      Some rid = Some (aid r) \<and> user_id r = uid usr \<and> check_out_time r = None" for rid r
    by (auto simp: checkout_where_def)
  have 1: "(\<exists>row db'. check_out uuid_in True now payload usr db = (Inr row, db')) \<longleftrightarrow>
      (\<exists>r \<in> set (attendance db).
          uuid_in (attendance_id payload) = Some (aid r) \<and> user_id r = uid usr \<and>
          check_out_time r = None)"
  proof (cases "uuid_in (attendance_id payload)")
    case None
    then show ?thesis by (simp add: check_out_unparsed)
  next
    case (Some rid)
    show ?thesis
    proof (cases "filter (checkout_where rid usr) (attendance db)")
      case Nil
      then have "\<forall>r\<in>set (attendance db). \<not> checkout_where rid usr r"
        by (simp add: filter_empty_conv)
      with Nil Some show ?thesis by (auto simp: check_out_parsed w)
    next
      case (Cons r rest)
      from filter_hd_mem [OF Cons] have "r \<in> set (attendance db)" "checkout_where rid usr r"
        by simp_all
      with Cons Some show ?thesis by (auto simp: check_out_parsed w)
    qed
  qed
  have 2: "uuid_in (attendance_id payload) = Some (aid row) \<and> user_id row = uid usr \<and>
      check_out_time row = Some now \<and> row \<in> set (attendance db') \<and>
      length (attendance db') = length (attendance db) \<and>
      (\<forall>i < length (attendance db).
         attendance db' ! i =
           (let r = attendance db ! i in
            if uuid_in (attendance_id payload) = Some (aid r) \<and> user_id r = uid usr \<and>
               check_out_time r = None
            then r\<lparr>check_out_time := Some now\<rparr> else r))"
    if a: "check_out uuid_in True now payload usr db = (Inr row, db')" for row db'
  proof -
    from a obtain rid r rest where p: "uuid_in (attendance_id payload) = Some rid"
      and db': "db' = db\<lparr>attendance :=
           map (\<lambda>r. if checkout_where rid usr r then checkout_set now r else r) (attendance db)\<rparr>"
      and f: "filter (checkout_where rid usr) (attendance db) = r # rest"
      and row: "row = checkout_set now r"
      by (rule check_out_Inr)
    from filter_hd_mem [OF f] have r: "r \<in> set (attendance db)" "checkout_where rid usr r"
      by simp_all
    have i: "uuid_in (attendance_id payload) = Some (aid row)" "user_id row = uid usr"
      "check_out_time row = Some now"
      using r p row by (simp_all add: checkout_where_def checkout_set_def)
    have m: "row \<in> set (attendance db')"
      unfolding db' row using r by force
    have l: "length (attendance db') = length (attendance db)" by (simp add: db')
    have n: "\<forall>i < length (attendance db).
         attendance db' ! i =
           (let r = attendance db ! i in
            if uuid_in (attendance_id payload) = Some (aid r) \<and> user_id r = uid usr \<and>
               check_out_time r = None
            then r\<lparr>check_out_time := Some now\<rparr> else r)"
      by (auto simp: db' p checkout_where_def checkout_set_def Let_def)
    from i m l n show ?thesis by blast
  qed
  have 3: "check_out uuid_in True now payload usr db =
        (Inl (HTTPException 400 ''No open check-in found for this record''), db)"
    if "uuid_in (attendance_id payload) \<noteq> None \<and>
        \<not> (\<exists>r \<in> set (attendance db).
          uuid_in (attendance_id payload) = Some (aid r) \<and> user_id r = uid usr \<and>
          check_out_time r = None)"
  proof -
    from that obtain rid where p: "uuid_in (attendance_id payload) = Some rid" by blast
    with that have "filter (checkout_where rid usr) (attendance db) = []"
      by (auto simp: filter_empty_conv checkout_where_def)
    then show ?thesis by (simp add: check_out_parsed p)
  qed
  have 4: "check_out uuid_in True now payload usr db =
        (Inl (HTTPException 500 ''Failed to check out''), db)"
    if "uuid_in (attendance_id payload) = None"
    using that by (rule check_out_unparsed)
  have 5: "db' = db" if "check_out uuid_in conn now payload usr db = (Inl e, db')" for e db'
    using that
    by (auto simp: check_out_def sql_update_def fetchone_def split: if_splits option.splits list.splits)
  from 1 2 3 4 5 show ?thesis by blast
qed

text \<open>
  C4 as stated fails: for an id that is not the text of a UUID no row matches, yet the
  answer is the 500 of the handler's \<^verbatim>\<open>except Exception\<close>, not the 400 of "no open
  check-in".
\<close>

theorem check_out_iff_open_record_counterexample:
  "pg_uuid_in (attendance_id \<lparr>attendance_id = ''not-a-uuid''\<rparr>) = None \<and>
   aid (open_row rec1 ''u1'' 1728032400000001 Late) \<noteq> ''not-a-uuid'' \<and>
   check_out pg_uuid_in True 1728036000000000 \<lparr>attendance_id = ''not-a-uuid''\<rparr> (member_of ''u1'')
     (store [open_row rec1 ''u1'' 1728032400000001 Late]) =
   (Inl (HTTPException 500 ''Failed to check out''),
    store [open_row rec1 ''u1'' 1728032400000001 Late]) \<and>
   HTTPException 500 ''Failed to check out'' \<noteq>
     HTTPException 400 ''No open check-in found for this record''"
  by (simp add: check_out_def pg_uuid_in_not_a_uuid open_row_def rec1_def)

text \<open>
  The owner of an open row checks out, giving the id in upper case; another user asking
  for the same row is refused with the 400.
\<close>

theorem check_out_iff_open_record_witness:
  "check_out pg_uuid_in True 1728036000000000
     \<lparr>attendance_id = ''A0EEBC99-9C0B-4EF8-BB6D-6BB9BD380A11''\<rparr> (member_of ''u1'')
     (store [open_row rec1 ''u1'' 1728032400000001 Late]) =
   (Inr ((open_row rec1 ''u1'' 1728032400000001 Late)\<lparr>check_out_time := Some 1728036000000000\<rparr>),
    store [(open_row rec1 ''u1'' 1728032400000001 Late)\<lparr>check_out_time := Some 1728036000000000\<rparr>]) \<and>
   check_out pg_uuid_in True 1728036000000000
     \<lparr>attendance_id = ''A0EEBC99-9C0B-4EF8-BB6D-6BB9BD380A11''\<rparr> (member_of ''u2'')
     (store [open_row rec1 ''u1'' 1728032400000001 Late]) =
   (Inl (HTTPException 400 ''No open check-in found for this record''),
    store [open_row rec1 ''u1'' 1728032400000001 Late])"
proof -
  have h: "check_out pg_uuid_in True 1728036000000000
     \<lparr>attendance_id = ''A0EEBC99-9C0B-4EF8-BB6D-6BB9BD380A11''\<rparr> (member_of ''u1'')
     (store [open_row rec1 ''u1'' 1728032400000001 Late]) =
   (Inr ((open_row rec1 ''u1'' 1728032400000001 Late)\<lparr>check_out_time := Some 1728036000000000\<rparr>),
    store [(open_row rec1 ''u1'' 1728032400000001 Late)\<lparr>check_out_time := Some 1728036000000000\<rparr>])"
    by (simp add: check_out_def sql_update_def fetchone_def checkout_where_def checkout_set_def
        pg_uuid_in_rec1_upper sample_defs)
  have n: "pg_uuid_in (attendance_id \<lparr>attendance_id = ''A0EEBC99-9C0B-4EF8-BB6D-6BB9BD380A11''\<rparr>) \<noteq> None \<and>
        \<not> (\<exists>r \<in> set (attendance (store [open_row rec1 ''u1'' 1728032400000001 Late])).
          pg_uuid_in (attendance_id \<lparr>attendance_id = ''A0EEBC99-9C0B-4EF8-BB6D-6BB9BD380A11''\<rparr>) =
            Some (aid r) \<and>
          user_id r = uid (member_of ''u2'') \<and> check_out_time r = None)"
    by (simp add: pg_uuid_in_rec1_upper sample_defs)
  from check_out_iff_open_record
    [of pg_uuid_in 1728036000000000 "\<lparr>attendance_id = ''A0EEBC99-9C0B-4EF8-BB6D-6BB9BD380A11''\<rparr>"
        "member_of ''u2''" "store [open_row rec1 ''u1'' 1728032400000001 Late]" True] n
  have "check_out pg_uuid_in True 1728036000000000
     \<lparr>attendance_id = ''A0EEBC99-9C0B-4EF8-BB6D-6BB9BD380A11''\<rparr> (member_of ''u2'')
     (store [open_row rec1 ''u1'' 1728032400000001 Late]) =
   (Inl (HTTPException 400 ''No open check-in found for this record''),
    store [open_row rec1 ''u1'' 1728032400000001 Late])"
    by blast
  with h show ?thesis by (rule conjI)
qed

text \<open>
  C10. A successful checkout changes nothing but the check-out time of the rows it
  selects: id, user, check-in time, status, notes, latitude, longitude and creation
  time of every row are as before, as are the other tables.
\<close>

theorem check_out_frame:
  assumes "check_out uuid_in conn now payload usr db = (Inr row, db')"
  shows "profiles db' = profiles db \<and> leaves db' = leaves db \<and>
         length (attendance db') = length (attendance db) \<and>
         (\<forall>i < length (attendance db).
            (let r = attendance db ! i; r' = attendance db' ! i in
               aid r' = aid r \<and> user_id r' = user_id r \<and> check_in_time r' = check_in_time r \<and>
               status r' = status r \<and> notes_text r' = notes_text r \<and>
               latitude r' = latitude r \<and> longitude r' = longitude r \<and>
               created_at r' = created_at r \<and>
               (r' \<noteq> r \<longrightarrow> uuid_in (attendance_id payload) = Some (aid r) \<and>
                    user_id r = uid usr \<and>
                    check_out_time r = None \<and> r' = r\<lparr>check_out_time := Some now\<rparr>))) \<and>
         (\<exists>r \<in> set (attendance db).
            uuid_in (attendance_id payload) = Some (aid r) \<and> user_id r = uid usr \<and>
            check_out_time r = None \<and> row = r\<lparr>check_out_time := Some now\<rparr>)"
proof -
  from assms obtain rid r rest where p: "uuid_in (attendance_id payload) = Some rid"
    and db': "db' = db\<lparr>attendance :=
         map (\<lambda>r. if checkout_where rid usr r then checkout_set now r else r) (attendance db)\<rparr>"
    and f: "filter (checkout_where rid usr) (attendance db) = r # rest"
    and row: "row = checkout_set now r"
    by (rule check_out_Inr)
  from filter_hd_mem [OF f] have r: "r \<in> set (attendance db)" "checkout_where rid usr r"
    by simp_all
  have 1: "profiles db' = profiles db" "leaves db' = leaves db"
    "length (attendance db') = length (attendance db)"
    by (simp_all add: db')
  have 2: "\<forall>i < length (attendance db).
            (let r = attendance db ! i; r' = attendance db' ! i in
               aid r' = aid r \<and> user_id r' = user_id r \<and> check_in_time r' = check_in_time r \<and>
               status r' = status r \<and> notes_text r' = notes_text r \<and>
               latitude r' = latitude r \<and> longitude r' = longitude r \<and>
               created_at r' = created_at r \<and>
               (r' \<noteq> r \<longrightarrow> uuid_in (attendance_id payload) = Some (aid r) \<and>
                    user_id r = uid usr \<and>
                    check_out_time r = None \<and> r' = r\<lparr>check_out_time := Some now\<rparr>))"
    by (simp add: db' p Let_def checkout_where_def checkout_set_def)
  have 3: "\<exists>r \<in> set (attendance db).
            uuid_in (attendance_id payload) = Some (aid r) \<and> user_id r = uid usr \<and>
            check_out_time r = None \<and> row = r\<lparr>check_out_time := Some now\<rparr>"
    using r row p by (auto simp: checkout_where_def checkout_set_def)
  from 1 2 3 show ?thesis by blast
qed

text \<open>A row classified late at check-in is still late after checkout.\<close>

theorem check_out_frame_witness:
  "check_out pg_uuid_in True 1728036000000000
     \<lparr>attendance_id = ''a0eebc99-9c0b-4ef8-bb6d-6bb9bd380a11''\<rparr> (member_of ''u1'')
     (store [open_row rec1 ''u1'' 1728032400000001 Late,
             open_row rec2 ''u2'' 1728032500000000 Late]) =
   (Inr ((open_row rec1 ''u1'' 1728032400000001 Late)\<lparr>check_out_time := Some 1728036000000000\<rparr>),
    store [(open_row rec1 ''u1'' 1728032400000001 Late)\<lparr>check_out_time := Some 1728036000000000\<rparr>,
           open_row rec2 ''u2'' 1728032500000000 Late]) \<and>
   status ((open_row rec1 ''u1'' 1728032400000001 Late)\<lparr>check_out_time := Some 1728036000000000\<rparr>)
     = Late"
proof -
  have h: "check_out pg_uuid_in True 1728036000000000
     \<lparr>attendance_id = ''a0eebc99-9c0b-4ef8-bb6d-6bb9bd380a11''\<rparr> (member_of ''u1'')
     (store [open_row rec1 ''u1'' 1728032400000001 Late,
             open_row rec2 ''u2'' 1728032500000000 Late]) =
   (Inr ((open_row rec1 ''u1'' 1728032400000001 Late)\<lparr>check_out_time := Some 1728036000000000\<rparr>),
    store [(open_row rec1 ''u1'' 1728032400000001 Late)\<lparr>check_out_time := Some 1728036000000000\<rparr>,
           open_row rec2 ''u2'' 1728032500000000 Late])"
    by (simp add: check_out_def sql_update_def fetchone_def checkout_where_def checkout_set_def
        pg_uuid_in_rec1 rec1_neq_rec2 sample_defs)
  have s: "status ((open_row rec1 ''u1'' 1728032400000001 Late)\<lparr>check_out_time := Some 1728036000000000\<rparr>)
     = Late"
    using check_out_frame [OF h] by (simp add: open_row_def)
  with h show ?thesis by (rule conjI)
qed

section \<open>Closed records\<close>

lemma check_out_attendance_nth:
  "i < length (attendance db) \<Longrightarrow>
   length (attendance (snd (check_out uuid_in conn now payload usr db))) = length (attendance db) \<and>
   (attendance (snd (check_out uuid_in conn now payload usr db)) ! i = attendance db ! i \<or>
    check_out_time (attendance db ! i) = None)"
  by (auto simp: check_out_def sql_update_def fetchone_def checkout_where_def
      split: option.splits list.splits)

lemma check_in_attendance:
  "\<exists>extra. attendance (snd (check_in sweep_conn sweep_now conn now new_id usr location db)) =
     attendance (snd (auto_expire_sessions sweep_conn sweep_now db)) @ extra"
  by (simp add: check_in_def Let_def split: option.splits)

lemma closed_row_sweep:
  assumes "i < length (attendance db)" "check_out_time (attendance db ! i) \<noteq> None"
  shows "attendance (snd (auto_expire_sessions conn now db)) ! i = attendance db ! i"
  using assms by (simp add: sweep_nth closed_not_where)

lemma closed_row_step:
  assumes "step db db'" "i < length (attendance db)" "check_out_time (attendance db ! i) \<noteq> None"
  shows "i < length (attendance db') \<and> attendance db' ! i = attendance db ! i"
  using assms
proof (cases rule: step.cases)
  case (step_check_in sweep_conn sweep_now conn now new_id usr location)
  from check_in_attendance obtain extra where
    "attendance db' = attendance (snd (auto_expire_sessions sweep_conn sweep_now db)) @ extra"
    unfolding step_check_in by blast
  with assms(2,3) show ?thesis
    by (simp add: nth_append sweep_length closed_row_sweep)
next
  case (step_check_out uuid_in conn now payload usr)
  with check_out_attendance_nth [OF assms(2), of uuid_in conn now payload usr] assms(2,3)
  show ?thesis by simp
next
  case (step_auto_expire conn now)
  with assms(2,3) show ?thesis by (simp add: sweep_length closed_row_sweep)
qed

text \<open>
  C7. A row with a check-out time is never changed again: after any sequence of
  check-ins, checkouts and sweeps (whatever their arguments and outcomes) it is in the
  table at the same place with the same contents.
\<close>

theorem checked_out_record_terminal:
  assumes "rtranclp step db db'"
    and "i < length (attendance db)"
    and "check_out_time (attendance db ! i) \<noteq> None"
  shows "i < length (attendance db') \<and> attendance db' ! i = attendance db ! i"
  using assms
proof (induction rule: rtranclp_induct)
  case base
  then show ?case by simp
next
  case (step y z)
  then have y: "i < length (attendance y)" "attendance y ! i = attendance db ! i" by simp_all
  with step.prems have "check_out_time (attendance y ! i) \<noteq> None" by simp
  from closed_row_step [OF step.hyps(2) y(1) this] y show ?case by simp
qed

text \<open>
  A sweep that expires another row, followed by a checkout attempt on the closed row,
  leaves the closed row as it was.
\<close>

theorem checked_out_record_terminal_witness:
  "rtranclp step
     (store [(open_row rec1 ''u1'' 0 Present)\<lparr>check_out_time := Some 3600000000\<rparr>,
             open_row rec2 ''u2'' 0 Late])
     (store [(open_row rec1 ''u1'' 0 Present)\<lparr>check_out_time := Some 3600000000\<rparr>,
             (open_row rec2 ''u2'' 0 Late)\<lparr>check_out_time := Some 7200000000, status := Absent\<rparr>]) \<and>
   attendance
     (store [(open_row rec1 ''u1'' 0 Present)\<lparr>check_out_time := Some 3600000000\<rparr>,
             (open_row rec2 ''u2'' 0 Late)\<lparr>check_out_time := Some 7200000000, status := Absent\<rparr>]) ! 0 =
   (open_row rec1 ''u1'' 0 Present)\<lparr>check_out_time := Some 3600000000\<rparr>"
proof -
  let ?c = "(open_row rec1 ''u1'' 0 Present)\<lparr>check_out_time := Some 3600000000\<rparr>"
  let ?e = "(open_row rec2 ''u2'' 0 Late)\<lparr>check_out_time := Some 7200000000, status := Absent\<rparr>"
  have e1: "snd (auto_expire_sessions True 10800000000 (store [?c, open_row rec2 ''u2'' 0 Late])) =
            store [?c, ?e]"
    by (simp add: auto_expire_sessions_def sql_update_def expire_where_def expire_set_def
        interval_minutes_def store_def open_row_def)
  have e2: "snd (check_out pg_uuid_in True 14400000000
                   \<lparr>attendance_id = ''a0eebc99-9c0b-4ef8-bb6d-6bb9bd380a11''\<rparr> (member_of ''u1'')
                   (store [?c, ?e])) = store [?c, ?e]"
    by (simp add: check_out_def sql_update_def fetchone_def checkout_where_def store_def
        open_row_def member_of_def pg_uuid_in_rec1)
  have s1: "step (store [?c, open_row rec2 ''u2'' 0 Late]) (store [?c, ?e])"
    by (rule step_auto_expire [OF e1 [symmetric]])
  have s2: "step (store [?c, ?e]) (store [?c, ?e])"
    by (rule step_check_out [of _ pg_uuid_in, OF e2 [symmetric]])
  have "rtranclp step (store [?c, open_row rec2 ''u2'' 0 Late]) (store [?c, ?e])"
    by (rule r_into_rtranclp [of step, OF s1])
  then have r: "rtranclp step (store [?c, open_row rec2 ''u2'' 0 Late]) (store [?c, ?e])"
    by (rule rtranclp.rtrancl_into_rtrancl [of step, OF _ s2])
  have i: "0 < length (attendance (store [?c, open_row rec2 ''u2'' 0 Late]))"
    by (simp add: store_def)
  have c: "check_out_time (attendance (store [?c, open_row rec2 ''u2'' 0 Late]) ! 0) \<noteq> None"
    by (simp add: store_def open_row_def)
  have "attendance (store [?c, ?e]) ! 0 = attendance (store [?c, open_row rec2 ''u2'' 0 Late]) ! 0"
    using checked_out_record_terminal [OF r i c] by (rule conjunct2)
  also have "\<dots> = ?c" by (simp add: store_def)
  finally have "attendance (store [?c, ?e]) ! 0 = ?c" .
  with r show ?thesis by (rule conjI)
qed

section \<open>Check-in\<close>

lemma date_trunc_day_le: "date_trunc_day t \<le> t"
  by (simp add: date_trunc_day_def)

lemma is_late_iff: "is_late now \<longleftrightarrow> now mod 86400000000 > 32400000000"
  by (auto simp: is_late_def date_trunc_day_def interval_hours_def)

lemma sweep_keeps_today:
  assumes "r \<in> set (attendance db)" "user_id r = u" "d \<le> check_in_time r"
  shows "filter (\<lambda>r. user_id r = u \<and> check_in_time r \<ge> d)
           (attendance (snd (auto_expire_sessions conn now db))) \<noteq> []"
proof -
  let ?r' = "if conn \<and> expire_where now r then expire_set r else r"
  from assms(1) have "?r' \<in> set (attendance (snd (auto_expire_sessions conn now db)))"
    by (auto simp: sweep_map)
  moreover from assms(2,3) have "user_id ?r' = u \<and> d \<le> check_in_time ?r'"
    by (simp add: expire_set_def)
  ultimately show ?thesis
    unfolding filter_empty_conv by blast
qed

lemma sweep_other_tables:
  "profiles (snd (auto_expire_sessions conn now db)) = profiles db \<and>
   leaves (snd (auto_expire_sessions conn now db)) = leaves db"
  by (simp add: sweep_snd)

text \<open>
  C1, as amended. When the user has a row whose check-in lies in the current calendar day,
  a check-in whose transaction runs through answers 400 "Already checked in today" and
  adds no row. The store it leaves is the one left by the sweep that the handler runs
  first: a row is either as before, or it was a stale open session that the sweep closed
  as absent.
\<close>

theorem check_in_same_day_conflict:
  assumes "r \<in> set (attendance db)" and "user_id r = uid usr"
    and "date_trunc_day (check_in_time r) = date_trunc_day now"
  shows "check_in sweep_conn sweep_now True now new_id usr location db =
           (Inl (HTTPException 400 ''Already checked in today''),
            snd (auto_expire_sessions sweep_conn sweep_now db)) \<and>
         (let db' = snd (check_in sweep_conn sweep_now True now new_id usr location db) in
            profiles db' = profiles db \<and> leaves db' = leaves db \<and>
            length (attendance db') = length (attendance db) \<and>
            (\<forall>i < length (attendance db).
               (let r = attendance db ! i; r' = attendance db' ! i in
                  r' = r \<or>
                  (sweep_conn \<and> check_out_time r = None \<and> status r \<noteq> Absent \<and>
                   sweep_now - check_in_time r > 7200000000 \<and>
                   r' = r\<lparr>check_out_time := Some (check_in_time r + 7200000000),
                          status := Absent\<rparr>))))"
proof -
  from assms(3) have "date_trunc_day now \<le> check_in_time r"
    using date_trunc_day_le [of "check_in_time r"] by simp
  from sweep_keeps_today [OF assms(1,2) this, of sweep_conn sweep_now]
  obtain x xs where "filter (\<lambda>r. user_id r = uid usr \<and> check_in_time r \<ge> date_trunc_day now)
           (attendance (snd (auto_expire_sessions sweep_conn sweep_now db))) = x # xs"
    by (auto simp: neq_Nil_conv)
  then have res: "check_in sweep_conn sweep_now True now new_id usr location db =
           (Inl (HTTPException 400 ''Already checked in today''),
            snd (auto_expire_sessions sweep_conn sweep_now db))"
    by (simp add: check_in_def Let_def fetchone_def)
  have rows: "\<forall>i < length (attendance db).
      (let r = attendance db ! i;
           r' = attendance (snd (auto_expire_sessions sweep_conn sweep_now db)) ! i in
         r' = r \<or>
         (sweep_conn \<and> check_out_time r = None \<and> status r \<noteq> Absent \<and>
          sweep_now - check_in_time r > 7200000000 \<and>
          r' = r\<lparr>check_out_time := Some (check_in_time r + 7200000000), status := Absent\<rparr>))"
    by (simp add: Let_def sweep_nth expire_where_iff expire_set_eq)
  show ?thesis
    unfolding res Let_def snd_conv
    using rows by (simp add: sweep_other_tables sweep_length Let_def)
qed

text \<open>
  C1 as stated fails: a user checked in at 00:30 and still open tries again at 03:00 of
  the same day. The answer is the conflict, but the sweep has closed the open row, so the
  existing records are not unchanged.
\<close>

theorem check_in_same_day_conflict_counterexample:
  "open_row ''a1'' ''u1'' 1728001800000000 Present
     \<in> set (attendance (store [open_row ''a1'' ''u1'' 1728001800000000 Present])) \<and>
   user_id (open_row ''a1'' ''u1'' 1728001800000000 Present) = uid (member_of ''u1'') \<and>
   date_trunc_day (check_in_time (open_row ''a1'' ''u1'' 1728001800000000 Present)) =
     date_trunc_day 1728010800000000 \<and>
   fst (check_in True 1728010800000000 True 1728010800000000 ''a2'' (member_of ''u1'') no_location
          (store [open_row ''a1'' ''u1'' 1728001800000000 Present])) =
     Inl (HTTPException 400 ''Already checked in today'') \<and>
   snd (check_in True 1728010800000000 True 1728010800000000 ''a2'' (member_of ''u1'') no_location
          (store [open_row ''a1'' ''u1'' 1728001800000000 Present])) \<noteq>
     store [open_row ''a1'' ''u1'' 1728001800000000 Present]"
  by (simp add: eval_defs sample_defs)

text \<open>A user with a closed row of today: the conflict, and the store as before.\<close>

theorem check_in_same_day_conflict_witness:
  "check_in True 1728010800000000 True 1728010800000000 ''a2'' (member_of ''u1'') no_location
     (store [(open_row ''a1'' ''u1'' 1728001800000000 Late)\<lparr>check_out_time := Some 1728003600000000\<rparr>]) =
   (Inl (HTTPException 400 ''Already checked in today''),
    store [(open_row ''a1'' ''u1'' 1728001800000000 Late)\<lparr>check_out_time := Some 1728003600000000\<rparr>])"
proof -
  let ?r = "(open_row ''a1'' ''u1'' 1728001800000000 Late)\<lparr>check_out_time := Some 1728003600000000\<rparr>"
  have 1: "?r \<in> set (attendance (store [?r]))" by (simp add: store_def)
  have 2: "user_id ?r = uid (member_of ''u1'')" by (simp add: sample_defs)
  have 3: "date_trunc_day (check_in_time ?r) = date_trunc_day 1728010800000000"
    by (simp add: sample_defs date_trunc_day_def)
  have 4: "snd (auto_expire_sessions True 1728010800000000 (store [?r])) = store [?r]"
    by (simp add: eval_defs sample_defs)
  from check_in_same_day_conflict [OF 1 2 3, of True 1728010800000000 "''a2''" no_location]
  show ?thesis unfolding 4 by simp
qed

text \<open>
  C3, as amended. A successful check-in is classified by the strict comparison
  \<^verbatim>\<open>NOW() > DATE_TRUNC('day', NOW()) + INTERVAL '9 hour'\<close>: late strictly after 09:00:00
  of the day, present at exactly 09:00:00 and before.
\<close>

theorem check_in_classification:
  assumes "check_in sweep_conn sweep_now conn now new_id usr location db = (Inr row, db')"
  shows "status row = (if now > date_trunc_day now + interval_hours 9 then Late else Present) \<and>
         (now mod 86400000000 = 32400000000 \<longrightarrow> status row = Present) \<and>
         (now mod 86400000000 > 32400000000 \<longrightarrow> status row = Late) \<and>
         (now mod 86400000000 < 32400000000 \<longrightarrow> status row = Present) \<and>
         user_id row = uid usr \<and> check_in_time row = now \<and> check_out_time row = None"
proof -
  from assms have "status row = (if is_late now then Late else Present) \<and>
      user_id row = uid usr \<and> check_in_time row = now \<and> check_out_time row = None"
    by (auto simp: check_in_def Let_def split: if_splits option.splits)
  moreover have "is_late now \<longleftrightarrow> now > date_trunc_day now + interval_hours 9"
    by (simp add: is_late_def)
  ultimately show ?thesis
    using is_late_iff [of now] by auto
qed

text \<open>
  C3 as stated fails: a check-in at exactly 09:00:00 (the threshold) is classified
  present, not late.
\<close>

theorem check_in_classification_counterexample:
  "(1728032400000000 :: int) = date_trunc_day 1728032400000000 + interval_hours 9 \<and>
   fst (check_in True 1728032400000000 True 1728032400000000 ''a1'' (member_of ''u1'') no_location
          (store [])) = Inr (open_row ''a1'' ''u1'' 1728032400000000 Present) \<and>
   status (open_row ''a1'' ''u1'' 1728032400000000 Present) \<noteq> Late"
  by (simp add: eval_defs sample_defs)

text \<open>One microsecond after 09:00:00 the check-in is late.\<close>

theorem check_in_classification_witness:
  "check_in True 1728032400000001 True 1728032400000001 ''a1'' (member_of ''u1'') no_location
     (store []) =
   (Inr (open_row ''a1'' ''u1'' 1728032400000001 Late),
    store [open_row ''a1'' ''u1'' 1728032400000001 Late]) \<and>
   status (open_row ''a1'' ''u1'' 1728032400000001 Late) = Late"
proof -
  have h: "check_in True 1728032400000001 True 1728032400000001 ''a1'' (member_of ''u1'') no_location
     (store []) =
   (Inr (open_row ''a1'' ''u1'' 1728032400000001 Late),
    store [open_row ''a1'' ''u1'' 1728032400000001 Late])"
    by (simp add: eval_defs sample_defs)
  from check_in_classification [OF h] show ?thesis using h
    by (simp add: open_row_def date_trunc_day_def interval_hours_def)
qed

section \<open>Properties of the network admission filter\<close>

lemma office_loop_iff:
  "office_loop ip_address ip_network contains client_ip allow \<longleftrightarrow>
     (\<exists>a \<in> set allow. entry_matches ip_address ip_network contains client_ip a)"
  by (induction allow) (auto simp: entry_matches_def split: option.splits)

lemma malformed_no_match:
  "malformed ip_address ip_network a \<Longrightarrow>
   \<not> entry_matches ip_address ip_network contains client_ip a"
  by (auto simp: malformed_def entry_matches_def split: if_splits)

text \<open>
  C6. An empty allowlist admits every candidate. With a non-empty allowlist a candidate
  that does not parse is denied, and a candidate that parses is admitted if and only if
  some entry matches it: a CIDR entry that parses and contains the address, or a bare
  entry that parses to the same address. A malformed entry never matches, and removing
  it from a list that stays non-empty does not change the answer.
\<close>

theorem is_office_network_admission:
  "(ALLOWED_OFFICE_IPS = [] \<longrightarrow>
      is_office_network ip_address ip_network contains ALLOWED_OFFICE_IPS ip) \<and>
   (ALLOWED_OFFICE_IPS \<noteq> [] \<and> ip_address ip = None \<longrightarrow>
      \<not> is_office_network ip_address ip_network contains ALLOWED_OFFICE_IPS ip) \<and>
   (ALLOWED_OFFICE_IPS \<noteq> [] \<longrightarrow>
      (is_office_network ip_address ip_network contains ALLOWED_OFFICE_IPS ip \<longleftrightarrow>
         (\<exists>client_ip. ip_address ip = Some client_ip \<and>
            (\<exists>allowed \<in> set ALLOWED_OFFICE_IPS.
               if CHR ''/'' \<in> set allowed
               then (\<exists>net. ip_network allowed = Some net \<and> contains net client_ip)
               else ip_address allowed = Some client_ip)))) \<and>
   (malformed ip_address ip_network bad \<and> before @ after \<noteq> [] \<longrightarrow>
      is_office_network ip_address ip_network contains (before @ bad # after) ip =
      is_office_network ip_address ip_network contains (before @ after) ip)"
proof -
  have m: "entry_matches ip_address ip_network contains c a \<longleftrightarrow>
      (if CHR ''/'' \<in> set a
       then (\<exists>net. ip_network a = Some net \<and> contains net c)
       else ip_address a = Some c)" for c a
    by (auto simp: entry_matches_def split: option.splits)
  have 1: "ALLOWED_OFFICE_IPS = [] \<longrightarrow>
      is_office_network ip_address ip_network contains ALLOWED_OFFICE_IPS ip"
    by (simp add: is_office_network_def)
  have 2: "ALLOWED_OFFICE_IPS \<noteq> [] \<and> ip_address ip = None \<longrightarrow>
      \<not> is_office_network ip_address ip_network contains ALLOWED_OFFICE_IPS ip"
    by (simp add: is_office_network_def)
  have 3: "ALLOWED_OFFICE_IPS \<noteq> [] \<longrightarrow>
      (is_office_network ip_address ip_network contains ALLOWED_OFFICE_IPS ip \<longleftrightarrow>
         (\<exists>client_ip. ip_address ip = Some client_ip \<and>
            (\<exists>allowed \<in> set ALLOWED_OFFICE_IPS.
               if CHR ''/'' \<in> set allowed
               then (\<exists>net. ip_network allowed = Some net \<and> contains net client_ip)
               else ip_address allowed = Some client_ip)))"
    by (simp add: is_office_network_def office_loop_iff m split: option.splits)
  have 4: "malformed ip_address ip_network bad \<and> before @ after \<noteq> [] \<longrightarrow>
      is_office_network ip_address ip_network contains (before @ bad # after) ip =
      is_office_network ip_address ip_network contains (before @ after) ip"
  proof
    assume a: "malformed ip_address ip_network bad \<and> before @ after \<noteq> []"
    then have "\<not> entry_matches ip_address ip_network contains c bad" for c
      by (simp add: malformed_no_match)
    then have loop: "office_loop ip_address ip_network contains c (before @ bad # after) =
               office_loop ip_address ip_network contains c (before @ after)" for c
      by (auto simp: office_loop_iff)
    from a have ne: "before @ after \<noteq> []" by blast
    have "is_office_network ip_address ip_network contains (before @ bad # after) ip =
          (case ip_address ip of None \<Rightarrow> False
           | Some c \<Rightarrow> office_loop ip_address ip_network contains c (before @ bad # after))"
      by (simp add: is_office_network_def)
    also have "\<dots> = (case ip_address ip of None \<Rightarrow> False
           | Some c \<Rightarrow> office_loop ip_address ip_network contains c (before @ after))"
      by (simp only: loop)
    also have "\<dots> = is_office_network ip_address ip_network contains (before @ after) ip"
      unfolding is_office_network_def using ne by (simp only: if_False)
    finally show "is_office_network ip_address ip_network contains (before @ bad # after) ip =
      is_office_network ip_address ip_network contains (before @ after) ip" .
  qed
  from 1 2 3 4 show ?thesis by blast
qed

text \<open>
  The allowlist of a malformed entry followed by 192.168.1.0/24 admits 192.168.1.50 and
  denies 10.0.0.5 and the sentinel; the empty allowlist admits the sentinel.
\<close>

theorem is_office_network_admission_witness:
  "is_office_network sample_ip_address sample_ip_network sample_contains
     [''300.1.1/zz'', ''192.168.1.0/24''] ''192.168.1.50'' \<and>
   \<not> is_office_network sample_ip_address sample_ip_network sample_contains
     [''300.1.1/zz'', ''192.168.1.0/24''] ''10.0.0.5'' \<and>
   \<not> is_office_network sample_ip_address sample_ip_network sample_contains
     [''300.1.1/zz'', ''192.168.1.0/24''] ''unknown'' \<and>
   is_office_network sample_ip_address sample_ip_network sample_contains [] ''unknown''"
proof -
  have bad: "malformed sample_ip_address sample_ip_network ''300.1.1/zz'' \<and>
             [] @ [''192.168.1.0/24''] \<noteq> []"
    by (simp add: malformed_def sample_ip_network_def)
  have ne: "[''192.168.1.0/24''] \<noteq> []" by simp
  have unk: "[''300.1.1/zz'', ''192.168.1.0/24''] \<noteq> [] \<and> sample_ip_address ''unknown'' = None"
    by (simp add: sample_ip_address_def)
  note t = is_office_network_admission
     [of _ sample_ip_address sample_ip_network sample_contains _ "''300.1.1/zz''" "[]"
         "[''192.168.1.0/24'']"]
  have a: "is_office_network sample_ip_address sample_ip_network sample_contains
     [''300.1.1/zz'', ''192.168.1.0/24''] ''192.168.1.50''"
    using t [of "[''192.168.1.0/24'']" "''192.168.1.50''"] bad ne
    by (simp add: sample_ip_address_def sample_ip_network_def sample_contains_def)
  have b: "\<not> is_office_network sample_ip_address sample_ip_network sample_contains
     [''300.1.1/zz'', ''192.168.1.0/24''] ''10.0.0.5''"
    using t [of "[''192.168.1.0/24'']" "''10.0.0.5''"] bad ne
    by (simp add: sample_ip_address_def sample_ip_network_def sample_contains_def)
  have c: "\<not> is_office_network sample_ip_address sample_ip_network sample_contains
     [''300.1.1/zz'', ''192.168.1.0/24''] ''unknown''"
    using t [of "[''300.1.1/zz'', ''192.168.1.0/24'']" "''unknown''"] unk by blast
  have d: "is_office_network sample_ip_address sample_ip_network sample_contains [] ''unknown''"
    using t [of "[]" "''unknown''"] by blast
  from a b c d show ?thesis by blast
qed

section \<open>Properties of the authorization gate\<close>

lemma fetchone_filter: "fetchone (filter P xs) = find P xs"
  by (induction xs) (simp_all add: fetchone_def)

lemma find_distinct_key:
  "distinct (map f xs) \<Longrightarrow> x \<in> set xs \<Longrightarrow> find (\<lambda>y. f y = f x) xs = Some x"
  by (induction xs) (auto simp: rev_image_eqI)

lemma find_no_key: "\<forall>x\<in>set xs. \<not> P x \<Longrightarrow> find P xs = None"
  by (induction xs) simp_all

lemma require_admin_resolved:
  "require_admin conn db usr =
     (if resolved_role conn db usr \<noteq> ''admin''
      then Inl (HTTPException 403
        ''You don't have permission to access this resource. Admin access required.'')
      else Inr usr)"
  by (simp add: require_admin_def resolved_role_def fetchone_filter dict_get_def Let_def
      split: option.splits)

text \<open>
  C8. When the lookup runs through and the user has a profile row, the gate decides by
  that row's role, whatever the metadata says. When there is no row, or the lookup
  raises, it decides by the metadata role, member when absent. The lookup never fails the
  request: the gate either returns the user or answers 403, and it answers 403 if and only
  if the resolved role is not admin.
\<close>

theorem require_admin_role_resolution:
  "(conn \<and> distinct (map pid (profiles db)) \<and> p \<in> set (profiles db) \<and> pid p = uid usr \<longrightarrow>
      (require_admin conn db usr = Inr usr \<longleftrightarrow> role p = ''admin'')) \<and>
   (\<not> conn \<or> (\<forall>p \<in> set (profiles db). pid p \<noteq> uid usr) \<longrightarrow>
      (require_admin conn db usr = Inr usr \<longleftrightarrow>
         (case map_of (user_metadata usr) ''role'' of Some r \<Rightarrow> r | None \<Rightarrow> ''member'') = ''admin'')) \<and>
   (require_admin conn db usr = Inr usr \<or>
    require_admin conn db usr = Inl (HTTPException 403
        ''You don't have permission to access this resource. Admin access required.'')) \<and>
   (require_admin conn db usr = Inl (HTTPException 403
        ''You don't have permission to access this resource. Admin access required.'') \<longleftrightarrow>
      resolved_role conn db usr \<noteq> ''admin'')"
proof -
  have 1: "require_admin conn db usr = Inr usr \<longleftrightarrow> role p = ''admin''"
    if "conn \<and> distinct (map pid (profiles db)) \<and> p \<in> set (profiles db) \<and> pid p = uid usr"
  proof -
    from that have "find (\<lambda>q. pid q = pid p) (profiles db) = Some p"
      by (intro find_distinct_key) blast+
    with that have "find (\<lambda>q. pid q = uid usr) (profiles db) = Some p"
      by metis
    with that have "resolved_role conn db usr = role p"
      by (simp add: resolved_role_def)
    then show ?thesis by (simp add: require_admin_resolved)
  qed
  have 2: "require_admin conn db usr = Inr usr \<longleftrightarrow>
         (case map_of (user_metadata usr) ''role'' of Some r \<Rightarrow> r | None \<Rightarrow> ''member'') = ''admin''"
    if "\<not> conn \<or> (\<forall>p \<in> set (profiles db). pid p \<noteq> uid usr)"
  proof -
    from that have "(if conn then find (\<lambda>p. pid p = uid usr) (profiles db) else None) = None"
      by (auto simp: find_no_key)
    then have "resolved_role conn db usr =
        (case map_of (user_metadata usr) ''role'' of Some r \<Rightarrow> r | None \<Rightarrow> ''member'')"
      by (simp add: resolved_role_def)
    then show ?thesis by (simp add: require_admin_resolved)
  qed
  have 3: "require_admin conn db usr = Inr usr \<or>
    require_admin conn db usr = Inl (HTTPException 403
        ''You don't have permission to access this resource. Admin access required.'')"
    by (simp add: require_admin_resolved)
  have 4: "require_admin conn db usr = Inl (HTTPException 403
        ''You don't have permission to access this resource. Admin access required.'') \<longleftrightarrow>
      resolved_role conn db usr \<noteq> ''admin''"
    by (simp add: require_admin_resolved)
  from 1 2 3 4 show ?thesis by blast
qed

text \<open>
  A profile row with role admin beats metadata saying member; with the store down the
  same user is judged by the metadata and refused.
\<close>

theorem require_admin_role_resolution_witness:
  "require_admin True \<lparr>profiles = [profile_row ''u1'' ''member'', profile_row ''u9'' ''admin''],
                       attendance = [], leaves = []\<rparr> (member_of ''u9'') = Inr (member_of ''u9'') \<and>
   require_admin False \<lparr>profiles = [profile_row ''u1'' ''member'', profile_row ''u9'' ''admin''],
                        attendance = [], leaves = []\<rparr> (member_of ''u9'') =
     Inl (HTTPException 403
        ''You don't have permission to access this resource. Admin access required.'')"
proof -
  let ?db = "\<lparr>profiles = [profile_row ''u1'' ''member'', profile_row ''u9'' ''admin''],
              attendance = [], leaves = []\<rparr>"
  have h: "True \<and> distinct (map pid (profiles ?db)) \<and> profile_row ''u9'' ''admin'' \<in> set (profiles ?db) \<and>
           pid (profile_row ''u9'' ''admin'') = uid (member_of ''u9'')"
    by (simp add: profile_row_def member_of_def)
  have r: "role (profile_row ''u9'' ''admin'') = ''admin''" by (simp add: profile_row_def)
  have m: "(case map_of (user_metadata (member_of ''u9'')) ''role'' of Some r \<Rightarrow> r | None \<Rightarrow> ''member'')
           \<noteq> ''admin''"
    by (simp add: member_of_def)
  from require_admin_role_resolution [of True ?db "profile_row ''u9'' ''admin''" "member_of ''u9''"] h r
  have a: "require_admin True ?db (member_of ''u9'') = Inr (member_of ''u9'')" by blast
  from require_admin_role_resolution [of False ?db "profile_row ''u9'' ''admin''" "member_of ''u9''"] m
  have b: "require_admin False ?db (member_of ''u9'') = Inl (HTTPException 403
        ''You don't have permission to access this resource. Admin access required.'')"
    by blast
  from a b show ?thesis by blast
qed

section \<open>Properties of leave approval\<close>

lemma approve_leave_Inl:
  "approve_leave uuid_in conn now payload usr db = (Inl e, db') \<Longrightarrow> db' = db"
  by (auto simp: approve_leave_def sql_update_def fetchone_def
      split: if_splits option.splits list.splits)

lemma approve_leave_Inr:
  assumes "approve_leave uuid_in conn now payload usr db = (Inr row, db')"
  obtains lv l rest where "req_status payload \<noteq> Pending"
    and "uuid_in (leave_id payload) = Some lv"
    and "db' = db\<lparr>leaves :=
                     map (\<lambda>l. if lid l = lv
                               then l\<lparr>l_status := req_status payload,
                                      admin_note := req_admin_note payload,
                                      approved_by := Some (uid usr), updated_at := now\<rparr>
                               else l) (leaves db)\<rparr>"
    and "filter (\<lambda>l. lid l = lv) (leaves db) = l # rest"
    and "row = l\<lparr>l_status := req_status payload, admin_note := req_admin_note payload,
                   approved_by := Some (uid usr), updated_at := now\<rparr>"
proof -
  from assms have s: "req_status payload \<noteq> Pending"
    by (auto simp: approve_leave_def split: if_splits)
  from assms obtain lv where p: "uuid_in (leave_id payload) = Some lv"
    by (cases "uuid_in (leave_id payload)") (auto simp: approve_leave_def split: if_splits)
  show thesis
  proof (cases "filter (\<lambda>l. lid l = lv) (leaves db)")
    case Nil
    with assms p show ?thesis
      by (auto simp: approve_leave_def sql_update_def fetchone_def split: if_splits)
  next
    case (Cons l rest)
    with assms p have "row = l\<lparr>l_status := req_status payload,
          admin_note := req_admin_note payload,
          approved_by := Some (uid usr), updated_at := now\<rparr>"
      and "db' = db\<lparr>leaves :=
                     map (\<lambda>l. if lid l = lv
                               then l\<lparr>l_status := req_status payload,
                                      admin_note := req_admin_note payload,
                                      approved_by := Some (uid usr), updated_at := now\<rparr>
                               else l) (leaves db)\<rparr>"
      by (auto simp: approve_leave_def sql_update_def fetchone_def split: if_splits)
    with s p Cons show ?thesis by (rule_tac that)
  qed
qed

lemma require_admin_Inr: "require_admin conn db usr = Inr u \<Longrightarrow> u = usr"
  by (simp add: require_admin_resolved split: if_splits)

text \<open>
  C9, as amended. The approval endpoint changes a leave only for a caller that passes the
  admin check, sets its status to approved or rejected (never pending) and records the
  caller as approver. It selects the leave by id alone, whatever its current status; every
  other leave and the other tables are unchanged, and a refused request changes nothing.
\<close>

theorem approve_leave_transition:
  "(\<forall>e db'. approve_leave_endpoint uuid_in admin_conn conn now payload usr db = (Inl e, db') \<longrightarrow>
      db' = db) \<and>
   (\<forall>row db'. approve_leave_endpoint uuid_in admin_conn conn now payload usr db = (Inr row, db') \<longrightarrow>
      require_admin admin_conn db usr = Inr usr \<and>
      resolved_role admin_conn db usr = ''admin'' \<and>
      (req_status payload = Approved \<or> req_status payload = Rejected) \<and>
      uuid_in (leave_id payload) = Some (lid row) \<and> l_status row = req_status payload \<and>
      approved_by row = Some (uid usr) \<and> row \<in> set (leaves db') \<and>
      profiles db' = profiles db \<and> attendance db' = attendance db \<and>
      length (leaves db') = length (leaves db) \<and>
      (\<forall>i < length (leaves db).
         leaves db' ! i =
           (let l = leaves db ! i in
            if uuid_in (leave_id payload) = Some (lid l)
            then l\<lparr>l_status := req_status payload, admin_note := req_admin_note payload,
                   approved_by := Some (uid usr), updated_at := now\<rparr>
            else l)))"
proof (intro conjI allI impI)
  fix e db'
  assume "approve_leave_endpoint uuid_in admin_conn conn now payload usr db = (Inl e, db')"
  then show "db' = db"
    by (auto simp: approve_leave_endpoint_def split: sum.splits dest: approve_leave_Inl)
next
  fix row db'
  assume a: "approve_leave_endpoint uuid_in admin_conn conn now payload usr db = (Inr row, db')"
  then obtain u where u: "require_admin admin_conn db usr = Inr u"
    and b: "approve_leave uuid_in conn now payload u db = (Inr row, db')"
    by (auto simp: approve_leave_endpoint_def split: sum.splits)
  from require_admin_Inr [OF u] have uu: "u = usr" .
  from u uu show "require_admin admin_conn db usr = Inr usr" by simp
  then show "resolved_role admin_conn db usr = ''admin''"
    by (simp add: require_admin_resolved split: if_splits)
  from b uu obtain lv l rest where s: "req_status payload \<noteq> Pending"
    and p: "uuid_in (leave_id payload) = Some lv"
    and db': "db' = db\<lparr>leaves :=
                     map (\<lambda>l. if lid l = lv
                               then l\<lparr>l_status := req_status payload,
                                      admin_note := req_admin_note payload,
                                      approved_by := Some (uid usr), updated_at := now\<rparr>
                               else l) (leaves db)\<rparr>"
    and f: "filter (\<lambda>l. lid l = lv) (leaves db) = l # rest"
    and row: "row = l\<lparr>l_status := req_status payload, admin_note := req_admin_note payload,
                   approved_by := Some (uid usr), updated_at := now\<rparr>"
    by (auto elim: approve_leave_Inr)
  from s show "req_status payload = Approved \<or> req_status payload = Rejected"
    by (cases "req_status payload") simp_all
  from filter_hd_mem [OF f] have l: "l \<in> set (leaves db)" "lid l = lv" by simp_all
  from l p row show "uuid_in (leave_id payload) = Some (lid row)"
    "l_status row = req_status payload" "approved_by row = Some (uid usr)" by simp_all
  from l show "row \<in> set (leaves db')" unfolding db' row by force
  show "profiles db' = profiles db" "attendance db' = attendance db"
    "length (leaves db') = length (leaves db)" by (simp_all add: db')
  fix i assume "i < length (leaves db)"
  then show "leaves db' ! i =
           (let l = leaves db ! i in
            if uuid_in (leave_id payload) = Some (lid l)
            then l\<lparr>l_status := req_status payload, admin_note := req_admin_note payload,
                   approved_by := Some (uid usr), updated_at := now\<rparr>
            else l)"
    by (auto simp: db' p Let_def)
qed

text \<open>
  C9 as stated fails: a leave that is already approved is moved to rejected by a second
  call.
\<close>

theorem approve_leave_transition_counterexample:
  "l_status (leave_row leave1 ''u1'' Approved (Some ''u9'')) = Approved \<and>
   approve_leave_endpoint pg_uuid_in True True 1728040000000000
     \<lparr>leave_id = ''6fa459ea-ee8a-3ca4-894e-db77e160355e'', req_status = Rejected,
      req_admin_note = None\<rparr> (admin_of ''u9'')
     \<lparr>profiles = [profile_row ''u1'' ''member'', profile_row ''u9'' ''admin''], attendance = [],
      leaves = [leave_row leave1 ''u1'' Approved (Some ''u9'')]\<rparr> =
   (Inr ((leave_row leave1 ''u1'' Rejected (Some ''u9''))\<lparr>updated_at := 1728040000000000\<rparr>),
    \<lparr>profiles = [profile_row ''u1'' ''member'', profile_row ''u9'' ''admin''], attendance = [],
     leaves = [(leave_row leave1 ''u1'' Rejected (Some ''u9''))\<lparr>updated_at := 1728040000000000\<rparr>]\<rparr>)"
  by (simp add: leave_eval_defs leave_sample_defs pg_uuid_in_leave1)

text \<open>An administrator approves a pending leave.\<close>

theorem approve_leave_transition_witness:
  "approve_leave_endpoint pg_uuid_in True True 1728040000000000
     \<lparr>leave_id = ''6fa459ea-ee8a-3ca4-894e-db77e160355e'', req_status = Approved,
      req_admin_note = Some ''ok''\<rparr> (admin_of ''u9'')
     \<lparr>profiles = [profile_row ''u1'' ''member'', profile_row ''u9'' ''admin''], attendance = [],
      leaves = [leave_row leave1 ''u1'' Pending None, leave_row leave2 ''u1'' Pending None]\<rparr> =
   (Inr ((leave_row leave1 ''u1'' Approved (Some ''u9''))
           \<lparr>admin_note := Some ''ok'', updated_at := 1728040000000000\<rparr>),
    \<lparr>profiles = [profile_row ''u1'' ''member'', profile_row ''u9'' ''admin''], attendance = [],
     leaves = [(leave_row leave1 ''u1'' Approved (Some ''u9''))
                 \<lparr>admin_note := Some ''ok'', updated_at := 1728040000000000\<rparr>,
               leave_row leave2 ''u1'' Pending None]\<rparr>) \<and>
   approved_by ((leave_row leave1 ''u1'' Approved (Some ''u9''))
           \<lparr>admin_note := Some ''ok'', updated_at := 1728040000000000\<rparr>) = Some (uid (admin_of ''u9''))"
proof -
  have h: "approve_leave_endpoint pg_uuid_in True True 1728040000000000
     \<lparr>leave_id = ''6fa459ea-ee8a-3ca4-894e-db77e160355e'', req_status = Approved,
      req_admin_note = Some ''ok''\<rparr> (admin_of ''u9'')
     \<lparr>profiles = [profile_row ''u1'' ''member'', profile_row ''u9'' ''admin''], attendance = [],
      leaves = [leave_row leave1 ''u1'' Pending None, leave_row leave2 ''u1'' Pending None]\<rparr> =
   (Inr ((leave_row leave1 ''u1'' Approved (Some ''u9''))
           \<lparr>admin_note := Some ''ok'', updated_at := 1728040000000000\<rparr>),
    \<lparr>profiles = [profile_row ''u1'' ''member'', profile_row ''u9'' ''admin''], attendance = [],
     leaves = [(leave_row leave1 ''u1'' Approved (Some ''u9''))
                 \<lparr>admin_note := Some ''ok'', updated_at := 1728040000000000\<rparr>,
               leave_row leave2 ''u1'' Pending None]\<rparr>)"
    by (simp add: leave_eval_defs leave_sample_defs pg_uuid_in_leave1 leave1_neq_leave2)
  from approve_leave_transition
    [of pg_uuid_in True True 1728040000000000
        "\<lparr>leave_id = ''6fa459ea-ee8a-3ca4-894e-db77e160355e'', req_status = Approved,
          req_admin_note = Some ''ok''\<rparr>" "admin_of ''u9''"
        "\<lparr>profiles = [profile_row ''u1'' ''member'', profile_row ''u9'' ''admin''], attendance = [],
          leaves = [leave_row leave1 ''u1'' Pending None, leave_row leave2 ''u1'' Pending None]\<rparr>"] h
  have "approved_by ((leave_row leave1 ''u1'' Approved (Some ''u9''))
           \<lparr>admin_note := Some ''ok'', updated_at := 1728040000000000\<rparr>) = Some (uid (admin_of ''u9''))"
    by blast
  with h show ?thesis by (rule conjI)
qed

end
